theory Spec2Isabelle
  imports Complex_Main "HOL-Library.AList"
begin

section \<open>Python values, errors and effects\<close>

text \<open>
  The script \<^verbatim>\<open>docs/user-guide/examples/workflow_demo.py\<close> consists of one procedure,
  \<^verbatim>\<open>demo_browser_workflow\<close>, which only calls \<^verbatim>\<open>print\<close>, \<^verbatim>\<open>time.sleep\<close> and
  \<^verbatim>\<open>json.dumps\<close>. Text is a \<^typ>\<open>string\<close> holding the UTF-8 bytes of the Python text, so
  the pictographs of the source are the byte sequences found in the source file.

  The dictionaries of the step list and of the result list hold scalars only. A
  dictionary is an association list in insertion order with distinct keys.
\<close>

datatype pyval = PStr string | PBool bool | PInt int | PFloat rat

type_synonym pydict = "(string \<times> pyval) list"

datatype error = KeyError string | TypeError | ValueError | OverflowError

text \<open>
  What a Python program can do to the world around it. The procedure itself only ever
  prints and sleeps; the other effects are there so that their absence can be stated.
\<close>

datatype effect =
    Print string
  | Sleep rat
  | WriteFile string string
  | HttpGet string
  | ReadEnv string

text \<open>
  A computation yields the effects it performed, in order, and then either the exception
  that ended it or its value. The effects performed before an exception are kept.
\<close>

type_synonym 'a prog = "effect list \<times> (error + 'a)"

definition ret :: "'a \<Rightarrow> 'a prog" where
  "ret x = ([], Inr x)"

definition lift :: "error + 'a \<Rightarrow> 'a prog" where
  "lift r = ([], r)"

definition then_do :: "'a prog \<Rightarrow> ('a \<Rightarrow> 'b prog) \<Rightarrow> 'b prog" where
  "then_do m f =
     (case m of
        (t, Inl e) \<Rightarrow> (t, Inl e)
      | (t, Inr x) \<Rightarrow> (case f x of (t', r) \<Rightarrow> (t @ t', r)))"

definition py_print :: "string \<Rightarrow> unit prog" where
  "py_print s = ([Print s], Inr ())"

text \<open>
  \<^verbatim>\<open>time.sleep\<close> as CPython has it. The duration is first turned into a signed 64-bit
  count of nanoseconds; a duration whose count does not fit raises OverflowError. The
  count is the product with \<open>10\<^sup>9\<close> as a float, which near \<open>2\<^sup>6\<^sup>3\<close> is a multiple of 1024,
  so the product fits when it is below \<open>2\<^sup>6\<^sup>3 - 512\<close> and not below \<open>- 2\<^sup>6\<^sup>3 - 1024\<close>.
  A negative duration that fits raises ValueError.

  These are the checks that CPython makes. The operating system can refuse a sleep, too,
  when its end lies beyond the range of the system clock. That depends on the platform
  and on how long its clock has run, it can only happen to a sleep of more than \<open>10\<^sup>8\<close>
  seconds, and it is not modelled: no claim below rests on a sleep that long being taken.
\<close>

definition overflows :: "rat \<Rightarrow> bool" where
  "overflows d = (d * 10 ^ 9 < - (2 ^ 63) - 1024 \<or> 2 ^ 63 - 512 \<le> d * 10 ^ 9)"

definition time_sleep :: "rat \<Rightarrow> unit prog" where
  "time_sleep d =
     (if overflows d then ([], Inl OverflowError)
      else if d < 0 then ([], Inl ValueError)
      else ([Sleep d], Inr ()))"

subsection \<open>Dictionary operations\<close>

text \<open>\<^verbatim>\<open>d[k]\<close>, \<^verbatim>\<open>k in d\<close> and \<^verbatim>\<open>d.get(k, default)\<close>.\<close>

definition getitem :: "pydict \<Rightarrow> string \<Rightarrow> error + pyval" where
  "getitem d k = (case map_of d k of None \<Rightarrow> Inl (KeyError k) | Some v \<Rightarrow> Inr v)"

definition contains :: "string \<Rightarrow> pydict \<Rightarrow> bool" where
  "contains k d = (map_of d k \<noteq> None)"

definition get_default :: "pydict \<Rightarrow> string \<Rightarrow> pyval \<Rightarrow> pyval" where
  "get_default d k v = (case map_of d k of None \<Rightarrow> v | Some x \<Rightarrow> x)"

definition keys :: "pydict \<Rightarrow> string list" where
  "keys d = map fst d"

subsection \<open>Formatting\<close>

definition digit_char :: "nat \<Rightarrow> char" where
  "digit_char n = ''0123456789'' ! n"

fun str_nat :: "nat \<Rightarrow> string" where
  "str_nat n = (if n < 10 then [digit_char n] else str_nat (n div 10) @ [digit_char (n mod 10)])"

declare str_nat.simps [simp del]

definition str_int :: "int \<Rightarrow> string" where
  "str_int i = (if i < 0 then ''-'' @ str_nat (nat (- i)) else str_nat (nat i))"

text \<open>
  The digits after the decimal point, until the expansion is exact or the bound is used up.
\<close>

fun frac_digits :: "nat \<Rightarrow> rat \<Rightarrow> string" where
  "frac_digits 0 x = []"
| "frac_digits (Suc n) x =
     (let y = x * 10; d = \<lfloor>y\<rfloor>
      in digit_char (nat d) # (if y = of_int d then [] else frac_digits n (y - of_int d)))"

text \<open>
  \<^verbatim>\<open>repr\<close> of a float, for the floats whose value is a decimal of at most 15 significant
  digits in the range printed without an exponent: there the shortest decimal that reads
  back as the same float is the exact expansion.
\<close>

definition repr_float :: "rat \<Rightarrow> string" where
  "repr_float x =
     (let a = \<bar>x\<bar>; n = \<lfloor>a\<rfloor>
      in (if x < 0 then ''-'' else '''') @ str_nat (nat n) @ ''.'' @ frac_digits 17 (a - of_int n))"

text \<open>\<^verbatim>\<open>str(v)\<close>, which is what a replacement field \<^verbatim>\<open>{v}\<close> of an f-string inserts.\<close>

fun py_str :: "pyval \<Rightarrow> string" where
  "py_str (PStr s) = s"
| "py_str (PBool b) = (if b then ''True'' else ''False'')"
| "py_str (PInt i) = str_int i"
| "py_str (PFloat x) = repr_float x"

subsection \<open>Addition and the builtin sum\<close>

fun as_int :: "pyval \<Rightarrow> int option" where
  "as_int (PInt i) = Some i"
| "as_int (PBool b) = Some (if b then 1 else 0)"
| "as_int _ = None"

fun as_num :: "pyval \<Rightarrow> rat option" where
  "as_num (PFloat x) = Some x"
| "as_num (PStr s) = None"
| "as_num v = map_option of_int (as_int v)"

text \<open>
  \<^verbatim>\<open>a + b\<close> on scalars. Two integers (a bool counts as one) add exactly. A sum with a
  float operand is the exact sum here, which is Python's result when that sum is a float;
  no value that the procedure adds is a float.
\<close>

definition py_add :: "pyval \<Rightarrow> pyval \<Rightarrow> error + pyval" where
  "py_add a b =
     (case (a, b) of
        (PStr x, PStr y) \<Rightarrow> Inr (PStr (x @ y))
      | _ \<Rightarrow>
        (case (as_int a, as_int b) of
           (Some i, Some j) \<Rightarrow> Inr (PInt (i + j))
         | _ \<Rightarrow>
           (case (as_num a, as_num b) of
              (Some x, Some y) \<Rightarrow> Inr (PFloat (x + y))
            | _ \<Rightarrow> Inl TypeError)))"

text \<open>\<^verbatim>\<open>sum(xs)\<close>: the accumulator starts at the integer 0 and takes the elements in order.\<close>

fun sum_from :: "pyval \<Rightarrow> pyval list \<Rightarrow> error + pyval" where
  "sum_from acc [] = Inr acc"
| "sum_from acc (x # xs) =
     (case py_add acc x of Inl e \<Rightarrow> Inl e | Inr acc' \<Rightarrow> sum_from acc' xs)"

definition py_sum :: "pyval list \<Rightarrow> error + pyval" where
  "py_sum xs = sum_from (PInt 0) xs"

section \<open>The procedure\<close>

subsection \<open>The pictographs of the source, as UTF-8\<close>

definition g_cycle :: string where
  "g_cycle = [CHR 0xF0, CHR 0x9F, CHR 0x94, CHR 0x84]"

definition g_target :: string where
  "g_target = [CHR 0xF0, CHR 0x9F, CHR 0x8E, CHR 0xAF]"

definition g_globe :: string where
  "g_globe = [CHR 0xF0, CHR 0x9F, CHR 0x8C, CHR 0x90]"

definition g_clapper :: string where
  "g_clapper = [CHR 0xF0, CHR 0x9F, CHR 0x8E, CHR 0xAC]"

definition g_check :: string where
  "g_check = [CHR 0xE2, CHR 0x9C, CHR 0x85]"

definition g_stopwatch :: string where
  "g_stopwatch = [CHR 0xE2, CHR 0x8F, CHR 0xB1, CHR 0xEF, CHR 0xB8, CHR 0x8F]"

definition g_page :: string where
  "g_page = [CHR 0xF0, CHR 0x9F, CHR 0x93, CHR 0x84]"

definition g_label :: string where
  "g_label = [CHR 0xF0, CHR 0x9F, CHR 0x8F, CHR 0xB7, CHR 0xEF, CHR 0xB8, CHR 0x8F]"

definition g_brain :: string where
  "g_brain = [CHR 0xF0, CHR 0x9F, CHR 0xA7, CHR 0xA0]"

definition g_chart :: string where
  "g_chart = [CHR 0xF0, CHR 0x9F, CHR 0x93, CHR 0x8A]"

definition g_bullet :: string where
  "g_bullet = [CHR 0xE2, CHR 0x80, CHR 0xA2]"

definition g_clipboard :: string where
  "g_clipboard = [CHR 0xF0, CHR 0x9F, CHR 0x93, CHR 0x8B]"

definition nl :: string where
  "nl = [CHR 0x0A]"

subsection \<open>The fixed data\<close>

definition step_company :: pydict where
  "step_company =
     [(''name'', PStr ''Browse Company Website''),
      (''url'', PStr ''https://example.com''),
      (''action'', PStr ''Extract company information and metadata'')]"

definition step_news :: pydict where
  "step_news =
     [(''name'', PStr ''Browse News Article''),
      (''url'', PStr ''https://httpbin.org/html''),
      (''action'', PStr ''Extract article content and entities'')]"

definition step_kg :: pydict where
  "step_kg =
     [(''name'', PStr ''KG Integration''),
      (''action'', PStr ''Store extracted information in knowledge graph'')]"

definition workflow_steps :: "pydict list" where
  "workflow_steps = [step_company, step_news, step_kg]"

definition kg_operations :: "string list" where
  "kg_operations =
     [''INSERT company data triples'',
      ''INSERT entity relationships'',
      ''Run inference on new data'',
      ''Update entity embeddings'']"

definition mock_result :: "pyval \<Rightarrow> pydict" where
  "mock_result url =
     [(''url'', url),
      (''success'', PBool True),
      (''extraction_time'', PFloat (5 / 2)),
      (''content_length'', PInt 15432),
      (''entities_found'', PInt 8),
      (''kg_triples_added'', PInt 12)]"

subsection \<open>The loop\<close>

text \<open>
  The argument of \<^verbatim>\<open>time.sleep\<close> is the parameter \<open>delay\<close> of the definitions below; the
  source is their instance at one half. A variant of the script that sleeps for another
  duration is the instance at that duration.
\<close>

fun kg_loop :: "rat \<Rightarrow> string list \<Rightarrow> unit prog" where
  "kg_loop delay [] = ret ()"
| "kg_loop delay (op # ops) =
     then_do (py_print (''   '' @ g_cycle @ '' '' @ op @ ''...'')) (\<lambda>_.
     then_do (time_sleep delay) (\<lambda>_.
     kg_loop delay ops))"

text \<open>The branch taken when the step has a \<^verbatim>\<open>url\<close> key; it appends to \<open>results\<close>.\<close>

definition browse_branch :: "pydict \<Rightarrow> pydict list \<Rightarrow> (pydict list) prog" where
  "browse_branch step results =
     then_do (lift (getitem step ''url'')) (\<lambda>u.
     then_do (py_print (''   '' @ g_globe @ '' URL: '' @ py_str u)) (\<lambda>_.
     then_do (lift (getitem step ''action'')) (\<lambda>a.
     then_do (py_print (''   '' @ g_clapper @ '' Action: '' @ py_str a)) (\<lambda>_.
     then_do (lift (getitem step ''url'')) (\<lambda>u'.
     let r = mock_result u'; results' = results @ [r] in
     then_do (lift (getitem r ''success'')) (\<lambda>v1.
     then_do (py_print (''   '' @ g_check @ '' Success: '' @ py_str v1)) (\<lambda>_.
     then_do (lift (getitem r ''extraction_time'')) (\<lambda>v2.
     then_do (py_print (''   '' @ g_stopwatch @ ''  Time: '' @ py_str v2 @ ''s'')) (\<lambda>_.
     then_do (lift (getitem r ''content_length'')) (\<lambda>v3.
     then_do (py_print (''   '' @ g_page @ '' Content: '' @ py_str v3 @ '' chars'')) (\<lambda>_.
     then_do (lift (getitem r ''entities_found'')) (\<lambda>v4.
     then_do (py_print (''   '' @ g_label @ ''  Entities: '' @ py_str v4)) (\<lambda>_.
     then_do (lift (getitem r ''kg_triples_added'')) (\<lambda>v5.
     then_do (py_print (''   '' @ g_brain @ '' KG Triples: '' @ py_str v5)) (\<lambda>_.
     ret results')))))))))))))))"

text \<open>The branch taken when the step has no \<^verbatim>\<open>url\<close> key and is named KG Integration.\<close>

definition kg_branch :: "rat \<Rightarrow> pydict \<Rightarrow> unit prog" where
  "kg_branch delay step =
     then_do (lift (getitem step ''action'')) (\<lambda>a.
     then_do (py_print (''   '' @ g_clapper @ '' Action: '' @ py_str a)) (\<lambda>_.
     then_do (kg_loop delay kg_operations) (\<lambda>_.
     py_print (''   '' @ g_check @ '' KG integration completed''))))"

definition step_header :: "pyval \<Rightarrow> string" where
  "step_header n = nl @ g_target @ '' Step: '' @ py_str n"

definition step_body :: "rat \<Rightarrow> pydict \<Rightarrow> pydict list \<Rightarrow> (pydict list) prog" where
  "step_body delay step results =
     then_do (lift (getitem step ''name'')) (\<lambda>n.
     then_do (py_print (step_header n)) (\<lambda>_.
     if contains ''url'' step then browse_branch step results
     else
       then_do (lift (getitem step ''name'')) (\<lambda>n'.
       if n' = PStr ''KG Integration''
       then then_do (kg_branch delay step) (\<lambda>_. ret results)
       else ret results)))"

fun run_steps :: "rat \<Rightarrow> pydict list \<Rightarrow> pydict list \<Rightarrow> (pydict list) prog" where
  "run_steps delay [] results = ret results"
| "run_steps delay (step # steps) results =
     then_do (step_body delay step results) (\<lambda>results'. run_steps delay steps results')"

subsection \<open>The summary and the closing text\<close>

definition summary :: "pydict list \<Rightarrow> pydict list \<Rightarrow> unit prog" where
  "summary steps results =
     then_do (py_print (nl @ g_chart @ '' Workflow Summary:'')) (\<lambda>_.
     then_do (py_print (''   Total steps: '' @ str_int (int (length steps)))) (\<lambda>_.
     then_do (py_print (''   URLs processed: '' @
                str_int (int (length (filter (contains ''url'') results))))) (\<lambda>_.
     then_do (lift (py_sum (map (\<lambda>r. get_default r ''entities_found'' (PInt 0)) results))) (\<lambda>e.
     then_do (py_print (''   Total entities extracted: '' @ py_str e)) (\<lambda>_.
     then_do (lift (py_sum (map (\<lambda>r. get_default r ''kg_triples_added'' (PInt 0)) results))) (\<lambda>t.
     py_print (''   Total KG triples added: '' @ py_str t)))))))"

definition benefits :: "unit prog" where
  "benefits =
     then_do (py_print (nl @ g_target @ '' Workflow Benefits:'')) (\<lambda>_.
     then_do (py_print (''   '' @ g_bullet @ '' Automated end-to-end processing'')) (\<lambda>_.
     then_do (py_print (''   '' @ g_bullet @ '' Consistent data extraction'')) (\<lambda>_.
     then_do (py_print (''   '' @ g_bullet @ '' Integrated KG updates'')) (\<lambda>_.
     then_do (py_print (''   '' @ g_bullet @ '' Error handling and retries'')) (\<lambda>_.
     py_print (''   '' @ g_bullet @ '' Performance monitoring''))))))"

section \<open>The JSON document\<close>

text \<open>
  The values that \<^verbatim>\<open>json.dumps\<close> is given: dictionaries with text keys, lists, text,
  integers, booleans and None. \<^verbatim>\<open>workflow_def\<close> is built from the first three.
\<close>

datatype json =
    JNull
  | JBool bool
  | JInt int
  | JStr string
  | JList "json list"
  | JDict "(string \<times> json) list"

definition workflow_def :: json where
  "workflow_def =
     JDict
       [(''name'', JStr ''Content Extraction Pipeline''),
        (''steps'', JList
           [JDict [(''type'', JStr ''browse''), (''url'', JStr ''https://example.com''),
                   (''extract'', JStr ''metadata'')],
            JDict [(''type'', JStr ''browse''), (''url'', JStr ''https://httpbin.org/html''),
                   (''extract'', JStr ''content'')],
            JDict [(''type'', JStr ''kg_update''), (''source'', JStr ''extracted_data'')],
            JDict [(''type'', JStr ''inference''), (''model'', JStr ''kg_embeddings'')]]),
        (''output'', JDict
           [(''kg_triples'', JStr ''generated''),
            (''entities'', JStr ''extracted''),
            (''embeddings'', JStr ''updated'')])]"

subsection \<open>Code points and UTF-8\<close>

definition byte :: "nat \<Rightarrow> char" where
  "byte n = char_of n"

definition code :: "char \<Rightarrow> nat" where
  "code c = of_char c"

definition cont :: "char \<Rightarrow> nat" where
  "cont c = code c mod 64"

fun utf8_decode :: "string \<Rightarrow> nat list" where
  "utf8_decode [] = []"
| "utf8_decode (b # bs) =
     (if code b < 0x80 then code b # utf8_decode bs
      else if code b < 0xE0 then
        (case bs of
           b1 # r \<Rightarrow> (code b mod 32 * 64 + cont b1) # utf8_decode r
         | _ \<Rightarrow> [])
      else if code b < 0xF0 then
        (case bs of
           b1 # b2 # r \<Rightarrow> (code b mod 16 * 4096 + cont b1 * 64 + cont b2) # utf8_decode r
         | _ \<Rightarrow> [])
      else
        (case bs of
           b1 # b2 # b3 # r \<Rightarrow>
             (code b mod 8 * 262144 + cont b1 * 4096 + cont b2 * 64 + cont b3) # utf8_decode r
         | _ \<Rightarrow> []))"

definition utf8_encode :: "nat \<Rightarrow> string" where
  "utf8_encode n =
     (if n < 0x80 then [byte n]
      else if n < 0x800 then [byte (0xC0 + n div 64), byte (0x80 + n mod 64)]
      else if n < 0x10000 then
        [byte (0xE0 + n div 4096), byte (0x80 + n div 64 mod 64), byte (0x80 + n mod 64)]
      else
        [byte (0xF0 + n div 262144), byte (0x80 + n div 4096 mod 64),
         byte (0x80 + n div 64 mod 64), byte (0x80 + n mod 64)])"

subsection \<open>The encoder\<close>

definition quote :: char where
  "quote = CHR 0x22"

definition backslash :: char where
  "backslash = CHR 0x5C"

definition hex_char :: "nat \<Rightarrow> char" where
  "hex_char n = ''0123456789abcdef'' ! n"

definition u_escape :: "nat \<Rightarrow> string" where
  "u_escape n =
     [backslash, CHR ''u'', hex_char (n div 4096 mod 16), hex_char (n div 256 mod 16),
      hex_char (n div 16 mod 16), hex_char (n mod 16)]"

text \<open>
  The default encoder escapes everything but printable ASCII: the quote and the backslash
  and five control characters by name, the rest as \<^verbatim>\<open>\uXXXX\<close>, a code point beyond the
  basic plane as a surrogate pair.
\<close>

definition esc_point :: "nat \<Rightarrow> string" where
  "esc_point n =
     (if n = 0x22 then [backslash, quote]
      else if n = 0x5C then [backslash, backslash]
      else if n = 0x0A then [backslash, CHR ''n'']
      else if n = 0x0D then [backslash, CHR ''r'']
      else if n = 0x09 then [backslash, CHR ''t'']
      else if n = 0x08 then [backslash, CHR ''b'']
      else if n = 0x0C then [backslash, CHR ''f'']
      else if 0x20 \<le> n \<and> n \<le> 0x7E then [byte n]
      else if n < 0x10000 then u_escape n
      else u_escape (0xD800 + (n - 0x10000) div 1024) @ u_escape (0xDC00 + (n - 0x10000) mod 1024))"

definition encode_str :: "string \<Rightarrow> string" where
  "encode_str s = [quote] @ concat (map esc_point (utf8_decode s)) @ [quote]"

fun join :: "string \<Rightarrow> string list \<Rightarrow> string" where
  "join sep [] = []"
| "join sep [x] = x"
| "join sep (x # y # ys) = x @ sep @ join sep (y # ys)"

text \<open>A line break followed by the indentation of nesting level \<open>n\<close>, two spaces a level.\<close>

definition newline_indent :: "nat \<Rightarrow> string" where
  "newline_indent n = nl @ replicate (2 * n) CHR '' ''"

text \<open>
  \<^verbatim>\<open>json.dumps(v, indent=2)\<close> at nesting level \<open>n\<close>: an empty container on one line, the
  items of a non-empty one each on a line of their own, separated by a comma, a key and
  its value by a colon and a space.
\<close>

fun dumps_at :: "nat \<Rightarrow> json \<Rightarrow> string" where
  "dumps_at n JNull = ''null''"
| "dumps_at n (JBool b) = (if b then ''true'' else ''false'')"
| "dumps_at n (JInt i) = str_int i"
| "dumps_at n (JStr s) = encode_str s"
| "dumps_at n (JList xs) =
     (if xs = [] then ''[]''
      else ''['' @ newline_indent (Suc n)
           @ join ('','' @ newline_indent (Suc n)) (map (dumps_at (Suc n)) xs)
           @ newline_indent n @ '']'')"
| "dumps_at n (JDict kvs) =
     (if kvs = [] then ''{}''
      else ''{'' @ newline_indent (Suc n)
           @ join ('','' @ newline_indent (Suc n))
               (map (\<lambda>kv. encode_str (fst kv) @ '': '' @ dumps_at (Suc n) (snd kv)) kvs)
           @ newline_indent n @ ''}'')"

definition json_dumps :: "json \<Rightarrow> string" where
  "json_dumps v = dumps_at 0 v"

subsection \<open>The decoder\<close>

text \<open>
  \<^verbatim>\<open>json.loads\<close>, by which the printed document is read back. \<open>None\<close> is a document
  that is rejected. A number with a fraction or an exponent and a lone surrogate have no
  value in \<^typ>\<open>json\<close> and are rejected here as well.
\<close>

definition is_ws :: "char \<Rightarrow> bool" where
  "is_ws c = (c = CHR '' '' \<or> c = CHR 0x09 \<or> c = CHR 0x0A \<or> c = CHR 0x0D)"

definition skip_ws :: "string \<Rightarrow> string" where
  "skip_ws s = dropWhile is_ws s"

definition is_digit :: "char \<Rightarrow> bool" where
  "is_digit c = (48 \<le> code c \<and> code c \<le> 57)"

definition hex_val :: "char \<Rightarrow> nat option" where
  "hex_val c =
     (if 48 \<le> code c \<and> code c \<le> 57 then Some (code c - 48)
      else if 97 \<le> code c \<and> code c \<le> 102 then Some (code c - 87)
      else if 65 \<le> code c \<and> code c \<le> 70 then Some (code c - 55)
      else None)"

definition hex4 :: "char \<Rightarrow> char \<Rightarrow> char \<Rightarrow> char \<Rightarrow> nat option" where
  "hex4 a b c d =
     (case (hex_val a, hex_val b, hex_val c, hex_val d) of
        (Some w, Some x, Some y, Some z) \<Rightarrow> Some (w * 4096 + x * 256 + y * 16 + z)
      | _ \<Rightarrow> None)"

definition unescape :: "char \<Rightarrow> char option" where
  "unescape e =
     (if e = quote then Some quote
      else if e = backslash then Some backslash
      else if e = CHR ''/'' then Some CHR ''/''
      else if e = CHR ''b'' then Some (CHR 0x08)
      else if e = CHR ''f'' then Some (CHR 0x0C)
      else if e = CHR ''n'' then Some (CHR 0x0A)
      else if e = CHR ''r'' then Some (CHR 0x0D)
      else if e = CHR ''t'' then Some (CHR 0x09)
      else None)"

definition prepend :: "string \<Rightarrow> (string \<times> string) option \<Rightarrow> (string \<times> string) option" where
  "prepend p r = (case r of None \<Rightarrow> None | Some (t, rest) \<Rightarrow> Some (p @ t, rest))"

text \<open>The text of a string after its opening quote, and what follows its closing quote.\<close>

fun parse_chars :: "string \<Rightarrow> (string \<times> string) option" where
  "parse_chars [] = None"
| "parse_chars (c # cs) =
     (if c = quote then Some ([], cs)
      else if c = backslash then
        (case cs of
           [] \<Rightarrow> None
         | e # r \<Rightarrow>
             if e = CHR ''u'' then
               (case r of
                  h1 # h2 # h3 # h4 # r' \<Rightarrow>
                    (case hex4 h1 h2 h3 h4 of
                       None \<Rightarrow> None
                     | Some n \<Rightarrow>
                         if 0xD800 \<le> n \<and> n < 0xDC00 then
                           (case r' of
                              b # u # l1 # l2 # l3 # l4 # r'' \<Rightarrow>
                                (case hex4 l1 l2 l3 l4 of
                                   None \<Rightarrow> None
                                 | Some m \<Rightarrow>
                                     if b = backslash \<and> u = CHR ''u'' \<and> 0xDC00 \<le> m \<and> m < 0xE000
                                     then prepend
                                            (utf8_encode (0x10000 + (n - 0xD800) * 1024 + (m - 0xDC00)))
                                            (parse_chars r'')
                                     else None)
                            | _ \<Rightarrow> None)
                         else if 0xDC00 \<le> n \<and> n < 0xE000 then None
                         else prepend (utf8_encode n) (parse_chars r'))
                | _ \<Rightarrow> None)
             else
               (case unescape e of
                  None \<Rightarrow> None
                | Some x \<Rightarrow> prepend [x] (parse_chars r)))
      else if code c < 0x20 then None
      else prepend [c] (parse_chars cs))"

definition digits_val :: "string \<Rightarrow> nat" where
  "digits_val ds = foldl (\<lambda>a c. 10 * a + (code c - 48)) 0 ds"

text \<open>An integer without its sign: a single zero, or digits that do not start with zero.\<close>

definition parse_nat :: "string \<Rightarrow> (nat \<times> string) option" where
  "parse_nat s =
     (case s of
        [] \<Rightarrow> None
      | d # r \<Rightarrow>
          if \<not> is_digit d then None
          else if d = CHR ''0'' then Some (0, r)
          else Some (digits_val (takeWhile is_digit s), dropWhile is_digit s))"

definition starts_float :: "string \<Rightarrow> bool" where
  "starts_float r =
     (case r of [] \<Rightarrow> False | c # _ \<Rightarrow> c = CHR ''.'' \<or> c = CHR ''e'' \<or> c = CHR ''E'')"

definition parse_number :: "string \<Rightarrow> (json \<times> string) option" where
  "parse_number s =
     (case s of
        [] \<Rightarrow> None
      | c # cs \<Rightarrow>
          (case parse_nat (if c = CHR ''-'' then cs else s) of
             None \<Rightarrow> None
           | Some (n, r) \<Rightarrow>
               if starts_float r then None
               else Some (JInt (if c = CHR ''-'' then - int n else int n), r)))"

fun strip_prefix :: "string \<Rightarrow> string \<Rightarrow> string option" where
  "strip_prefix [] s = Some s"
| "strip_prefix (p # ps) [] = None"
| "strip_prefix (p # ps) (c # cs) = (if p = c then strip_prefix ps cs else None)"

text \<open>A later occurrence of a key replaces the value of the earlier one, in its place.\<close>

definition make_dict :: "(string \<times> json) list \<Rightarrow> (string \<times> json) list" where
  "make_dict kvs = foldl (\<lambda>d kv. AList.update (fst kv) (snd kv) d) [] kvs"

text \<open>
  The three mutually recursive parsers take a bound on the number of nested calls;
  \<open>parse_items\<close> starts at the first value of a non-empty list and \<open>parse_members\<close> at
  the first key of a non-empty dictionary.
\<close>

fun parse_value :: "nat \<Rightarrow> string \<Rightarrow> (json \<times> string) option"
  and parse_items :: "nat \<Rightarrow> string \<Rightarrow> (json list \<times> string) option"
  and parse_members :: "nat \<Rightarrow> string \<Rightarrow> ((string \<times> json) list \<times> string) option"
where
  "parse_value 0 s = None"
| "parse_value (Suc n) s =
     (case s of
        [] \<Rightarrow> None
      | c # cs \<Rightarrow>
          if c = quote then
            (case parse_chars cs of None \<Rightarrow> None | Some (t, r) \<Rightarrow> Some (JStr t, r))
          else if c = CHR ''['' then
            (case skip_ws cs of
               [] \<Rightarrow> None
             | d # ds \<Rightarrow>
                 if d = CHR '']'' then Some (JList [], ds)
                 else (case parse_items n (d # ds) of
                         None \<Rightarrow> None
                       | Some (xs, r) \<Rightarrow> Some (JList xs, r)))
          else if c = CHR ''{'' then
            (case skip_ws cs of
               [] \<Rightarrow> None
             | d # ds \<Rightarrow>
                 if d = CHR ''}'' then Some (JDict [], ds)
                 else (case parse_members n (d # ds) of
                         None \<Rightarrow> None
                       | Some (kvs, r) \<Rightarrow> Some (JDict (make_dict kvs), r)))
          else
            (case strip_prefix ''null'' s of
               Some r \<Rightarrow> Some (JNull, r)
             | None \<Rightarrow>
            (case strip_prefix ''true'' s of
               Some r \<Rightarrow> Some (JBool True, r)
             | None \<Rightarrow>
            (case strip_prefix ''false'' s of
               Some r \<Rightarrow> Some (JBool False, r)
             | None \<Rightarrow> parse_number s))))"
| "parse_items 0 s = None"
| "parse_items (Suc n) s =
     (case parse_value n s of
        None \<Rightarrow> None
      | Some (v, r) \<Rightarrow>
          (case skip_ws r of
             [] \<Rightarrow> None
           | c # cs \<Rightarrow>
               if c = CHR '','' then
                 (case parse_items n (skip_ws cs) of
                    None \<Rightarrow> None
                  | Some (vs, r') \<Rightarrow> Some (v # vs, r'))
               else if c = CHR '']'' then Some ([v], cs)
               else None))"
| "parse_members 0 s = None"
| "parse_members (Suc n) s =
     (case s of
        [] \<Rightarrow> None
      | q # s1 \<Rightarrow>
          if q \<noteq> quote then None
          else
            (case parse_chars s1 of
               None \<Rightarrow> None
             | Some (k, r) \<Rightarrow>
                 (case skip_ws r of
                    [] \<Rightarrow> None
                  | c # r1 \<Rightarrow>
                      if c \<noteq> CHR '':'' then None
                      else
                        (case parse_value n (skip_ws r1) of
                           None \<Rightarrow> None
                         | Some (v, r2) \<Rightarrow>
                             (case skip_ws r2 of
                                [] \<Rightarrow> None
                              | c' # r3 \<Rightarrow>
                                  if c' = CHR '','' then
                                    (case parse_members n (skip_ws r3) of
                                       None \<Rightarrow> None
                                     | Some (kvs, r4) \<Rightarrow> Some ((k, v) # kvs, r4))
                                  else if c' = CHR ''}'' then Some ([(k, v)], r3)
                                  else None)))))"

text \<open>
  The whole text is one value between optional white space. No parse makes more nested
  calls than the text has characters.
\<close>

definition json_loads :: "string \<Rightarrow> json option" where
  "json_loads s =
     (case parse_value (Suc (length s)) (skip_ws s) of
        None \<Rightarrow> None
      | Some (v, r) \<Rightarrow> if skip_ws r = [] then Some v else None)"

section \<open>The whole procedure\<close>

text \<open>
  The value of the computation is the list \<open>results\<close> as it stands when the procedure
  returns. The Python procedure returns nothing; the list is kept here because the
  properties below speak of it.
\<close>

definition demo_with_sleep :: "rat \<Rightarrow> (pydict list) prog" where
  "demo_with_sleep delay =
     then_do (py_print (g_cycle @ '' Browser Automation Workflow Demo'')) (\<lambda>_.
     then_do (py_print (replicate 40 CHR ''='')) (\<lambda>_.
     then_do (run_steps delay workflow_steps []) (\<lambda>results.
     then_do (summary workflow_steps results) (\<lambda>_.
     then_do benefits (\<lambda>_.
     then_do (py_print (nl @ g_clipboard @ '' Workflow Definition (JSON):'')) (\<lambda>_.
     then_do (py_print (json_dumps workflow_def)) (\<lambda>_.
     ret results)))))))"

definition demo_browser_workflow :: "(pydict list) prog" where
  "demo_browser_workflow = demo_with_sleep (1 / 2)"

text \<open>The \<^verbatim>\<open>print\<close> calls of a run, and the text they put on standard output.\<close>

fun printed :: "effect list \<Rightarrow> string list" where
  "printed [] = []"
| "printed (Print s # es) = s # printed es"
| "printed (e # es) = printed es"

definition stdout_text :: "effect list \<Rightarrow> string" where
  "stdout_text es = concat (map (\<lambda>s. s @ nl) (printed es))"

text \<open>A printed text is a step header when it starts as the header of the loop does.\<close>

definition is_step_header :: "string \<Rightarrow> bool" where
  "is_step_header s = (strip_prefix (nl @ g_target @ '' Step: '') s \<noteq> None)"

section \<open>The world around a run\<close>

text \<open>
  What a run can touch: the text on standard output, the clock, the files, the requests
  sent over the network and the environment variables read.
\<close>

record world =
  out :: string
  clock :: rat
  files :: "string \<Rightarrow> string option"
  requests :: "string list"
  env_reads :: "string list"

text \<open>
  One effect changes the world. \<^verbatim>\<open>print\<close> appends its text and a line break to standard
  output. A sleep of \<open>d\<close> seconds lasts at least \<open>d\<close> seconds, how much longer is not
  determined.
\<close>

inductive perform :: "effect \<Rightarrow> world \<Rightarrow> world \<Rightarrow> bool" where
  perform_print: "perform (Print s) w (w\<lparr>out := out w @ s @ nl\<rparr>)"
| perform_sleep: "d \<le> e \<Longrightarrow> perform (Sleep d) w (w\<lparr>clock := clock w + e\<rparr>)"
| perform_write: "perform (WriteFile p c) w (w\<lparr>files := (files w)(p \<mapsto> c)\<rparr>)"
| perform_get: "perform (HttpGet u) w (w\<lparr>requests := requests w @ [u]\<rparr>)"
| perform_env: "perform (ReadEnv n) w (w\<lparr>env_reads := env_reads w @ [n]\<rparr>)"

inductive performs :: "effect list \<Rightarrow> world \<Rightarrow> world \<Rightarrow> bool" where
  performs_nil: "performs [] w w"
| performs_cons: "perform e w w' \<Longrightarrow> performs es w' w'' \<Longrightarrow> performs (e # es) w w''"

text \<open>
  What a script can read when it is started: the command line, the environment, standard
  input, the time of day and the seed of the string hash. A script is a computation that
  may depend on them.
\<close>

record inputs =
  argv :: "string list"
  environ :: "string \<Rightarrow> string option"
  stdin :: string
  start_time :: rat
  hash_seed :: nat

type_synonym 'a script = "inputs \<Rightarrow> 'a prog"


text \<open>
  A run of a script started with \<open>inp\<close>, from world \<open>w\<close> to world \<open>w'\<close> with outcome \<open>r\<close>,
  and the text that a run added to standard output.
\<close>

definition script_runs ::
  "'a script \<Rightarrow> inputs \<Rightarrow> world \<Rightarrow> world \<Rightarrow> error + 'a \<Rightarrow> bool" where
  "script_runs s inp w w' r = (performs (fst (s inp)) w w' \<and> r = snd (s inp))"

definition emitted :: "world \<Rightarrow> world \<Rightarrow> string" where
  "emitted w w' = drop (length (out w)) (out w')"

text \<open>The run in which every sleep overruns by \<open>x\<close> seconds.\<close>

fun perform_late :: "rat \<Rightarrow> effect \<Rightarrow> world \<Rightarrow> world" where
  "perform_late x (Print s) w = w\<lparr>out := out w @ s @ nl\<rparr>"
| "perform_late x (Sleep d) w = w\<lparr>clock := clock w + (d + x)\<rparr>"
| "perform_late x (WriteFile p c) w = w\<lparr>files := (files w)(p \<mapsto> c)\<rparr>"
| "perform_late x (HttpGet u) w = w\<lparr>requests := requests w @ [u]\<rparr>"
| "perform_late x (ReadEnv n) w = w\<lparr>env_reads := env_reads w @ [n]\<rparr>"

fun run_late :: "rat \<Rightarrow> effect list \<Rightarrow> world \<Rightarrow> world" where
  "run_late x [] w = w"
| "run_late x (e # es) w = run_late x es (perform_late x e w)"

fun print_or_sleep :: "effect \<Rightarrow> bool" where
  "print_or_sleep (Print s) = True"
| "print_or_sleep (Sleep d) = True"
| "print_or_sleep e = False"

fun slept :: "effect list \<Rightarrow> rat" where
  "slept [] = 0"
| "slept (Sleep d # es) = d + slept es"
| "slept (e # es) = slept es"

definition world0 :: world where
  "world0 = \<lparr>out = [], clock = 0, files = Map.empty, requests = [], env_reads = []\<rparr>"

definition inputs0 :: inputs where
  "inputs0 = \<lparr>argv = [], environ = Map.empty, stdin = [], start_time = 0, hash_seed = 0\<rparr>"

text \<open>Text that the encoder leaves as it is: printable ASCII but the quote and the backslash.\<close>

definition plain_char :: "char \<Rightarrow> bool" where
  "plain_char c = (0x20 \<le> code c \<and> code c \<le> 0x7E \<and> code c \<noteq> 0x22 \<and> code c \<noteq> 0x5C)"

section \<open>Evaluating the procedure\<close>

subsection \<open>Sequencing and formatting\<close>

lemma then_do_Inr: "then_do (t, Inr x) f = (case f x of (t', r) \<Rightarrow> (t @ t', r))"
  by (simp add: then_do_def)

lemma then_do_Inl: "then_do (t, Inl e) f = (t, Inl e)"
  by (simp add: then_do_def)

lemmas prog_simps = then_do_Inr then_do_Inl py_print_def lift_def ret_def

lemma time_sleep_ok:
  assumes "0 \<le> d" and "d \<le> 10 ^ 8"
  shows "time_sleep d = ([Sleep d], Inr ())"
proof -
  from assms have "\<not> overflows d" by (simp add: overflows_def)
  with assms show ?thesis by (simp add: time_sleep_def)
qed

lemma time_sleep_half: "time_sleep (1 / 2) = ([Sleep (1 / 2)], Inr ())"
  by (rule time_sleep_ok) simp_all

lemma time_sleep_negative: "time_sleep (- 1) = ([], Inl ValueError)"
  by (simp add: time_sleep_def overflows_def)

lemma time_sleep_huge: "time_sleep (10 ^ 10) = ([], Inl OverflowError)"
  by (simp add: time_sleep_def overflows_def)

lemma str_int_2: "str_int 2 = ''2''" by (simp add: str_int_def str_nat.simps digit_char_def)
lemma str_int_3: "str_int 3 = ''3''" by (simp add: str_int_def str_nat.simps digit_char_def)
lemma str_int_8: "str_int 8 = ''8''" by (simp add: str_int_def str_nat.simps digit_char_def)
lemma str_int_12: "str_int 12 = ''12''" by (simp add: str_int_def str_nat.simps digit_char_def)
lemma str_int_16: "str_int 16 = ''16''" by (simp add: str_int_def str_nat.simps digit_char_def)
lemma str_int_24: "str_int 24 = ''24''" by (simp add: str_int_def str_nat.simps digit_char_def)
lemma str_int_15432: "str_int 15432 = ''15432''" by (simp add: str_int_def str_nat.simps digit_char_def)

lemma frac_digits_half: "frac_digits 17 (1 / 2) = ''5''"
proof -
  have "frac_digits 17 (1 / 2) = frac_digits (Suc 16) (1 / 2)" by simp
  also have "\<dots> = ''5''"
    by (simp only: frac_digits.simps) (simp add: Let_def digit_char_def)
  finally show ?thesis .
qed

lemma repr_float_5_2: "repr_float (5 / 2) = ''2.5''"
proof -
  have fl: "\<lfloor>5 / 2 :: rat\<rfloor> = 2" by (rule floor_unique) simp_all
  have r: "(5 / 2 :: rat) - 2 = 1 / 2" by simp
  show ?thesis
    by (simp add: repr_float_def Let_def fl r frac_digits_half str_nat.simps digit_char_def
          del: frac_digits.simps)
qed

lemma browse_branch_ok:
  assumes "map_of step ''url'' = Some u" and "map_of step ''action'' = Some a"
  shows "browse_branch step rs =
    ([Print (''   '' @ g_globe @ '' URL: '' @ py_str u),
      Print (''   '' @ g_clapper @ '' Action: '' @ py_str a),
      Print (''   '' @ g_check @ '' Success: True''),
      Print (''   '' @ g_stopwatch @ ''  Time: 2.5s''),
      Print (''   '' @ g_page @ '' Content: 15432 chars''),
      Print (''   '' @ g_label @ ''  Entities: 8''),
      Print (''   '' @ g_brain @ '' KG Triples: 12'')],
     Inr (rs @ [mock_result u]))"
  using assms
  by (simp add: browse_branch_def getitem_def mock_result_def Let_def prog_simps
        str_int_8 str_int_12 str_int_15432 repr_float_5_2)


lemma kg_loop_ok:
  "time_sleep d = ([Sleep d], Inr ()) \<Longrightarrow> kg_loop d ops =
     (concat (map (\<lambda>op. [Print (''   '' @ g_cycle @ '' '' @ op @ ''...''), Sleep d]) ops), Inr ())"
  by (induction ops) (simp_all add: prog_simps)

lemma kg_branch_ok:
  assumes "time_sleep d = ([Sleep d], Inr ())" and "map_of step ''action'' = Some a"
  shows "kg_branch d step =
    (Print (''   '' @ g_clapper @ '' Action: '' @ py_str a)
       # concat (map (\<lambda>op. [Print (''   '' @ g_cycle @ '' '' @ op @ ''...''), Sleep d]) kg_operations)
       @ [Print (''   '' @ g_check @ '' KG integration completed'')],
     Inr ())"
  using assms
  by (simp add: kg_branch_def getitem_def kg_loop_ok prog_simps)

lemma step_body_url:
  assumes "map_of step ''name'' = Some n" and "map_of step ''url'' = Some u"
    and "map_of step ''action'' = Some a"
  shows "step_body d step rs =
    ([Print (step_header n),
      Print (''   '' @ g_globe @ '' URL: '' @ py_str u),
      Print (''   '' @ g_clapper @ '' Action: '' @ py_str a),
      Print (''   '' @ g_check @ '' Success: True''),
      Print (''   '' @ g_stopwatch @ ''  Time: 2.5s''),
      Print (''   '' @ g_page @ '' Content: 15432 chars''),
      Print (''   '' @ g_label @ ''  Entities: 8''),
      Print (''   '' @ g_brain @ '' KG Triples: 12'')],
     Inr (rs @ [mock_result u]))"
  using assms
  by (simp add: step_body_def getitem_def contains_def browse_branch_ok prog_simps)

lemma step_body_kg:
  assumes "time_sleep d = ([Sleep d], Inr ())"
    and "map_of step ''name'' = Some (PStr ''KG Integration'')"
    and "map_of step ''url'' = None" and "map_of step ''action'' = Some a"
  shows "step_body d step rs =
    (Print (step_header (PStr ''KG Integration''))
       # Print (''   '' @ g_clapper @ '' Action: '' @ py_str a)
       # concat (map (\<lambda>op. [Print (''   '' @ g_cycle @ '' '' @ op @ ''...''), Sleep d]) kg_operations)
       @ [Print (''   '' @ g_check @ '' KG integration completed'')],
     Inr rs)"
  using assms
  by (simp add: step_body_def getitem_def contains_def kg_branch_ok prog_simps)


lemma step_body_company:
  "step_body d step_company rs =
    ([Print (step_header (PStr ''Browse Company Website'')),
      Print (''   '' @ g_globe @ '' URL: https://example.com''),
      Print (''   '' @ g_clapper @ '' Action: Extract company information and metadata''),
      Print (''   '' @ g_check @ '' Success: True''),
      Print (''   '' @ g_stopwatch @ ''  Time: 2.5s''),
      Print (''   '' @ g_page @ '' Content: 15432 chars''),
      Print (''   '' @ g_label @ ''  Entities: 8''),
      Print (''   '' @ g_brain @ '' KG Triples: 12'')],
     Inr (rs @ [mock_result (PStr ''https://example.com'')]))"
  by (subst step_body_url [where n = "PStr ''Browse Company Website''"
        and u = "PStr ''https://example.com''"
        and a = "PStr ''Extract company information and metadata''"])
     (simp_all add: step_company_def)

lemma step_body_news:
  "step_body d step_news rs =
    ([Print (step_header (PStr ''Browse News Article'')),
      Print (''   '' @ g_globe @ '' URL: https://httpbin.org/html''),
      Print (''   '' @ g_clapper @ '' Action: Extract article content and entities''),
      Print (''   '' @ g_check @ '' Success: True''),
      Print (''   '' @ g_stopwatch @ ''  Time: 2.5s''),
      Print (''   '' @ g_page @ '' Content: 15432 chars''),
      Print (''   '' @ g_label @ ''  Entities: 8''),
      Print (''   '' @ g_brain @ '' KG Triples: 12'')],
     Inr (rs @ [mock_result (PStr ''https://httpbin.org/html'')]))"
  by (subst step_body_url [where n = "PStr ''Browse News Article''"
        and u = "PStr ''https://httpbin.org/html''"
        and a = "PStr ''Extract article content and entities''"])
     (simp_all add: step_news_def)

lemma step_body_kg_step:
  assumes "time_sleep d = ([Sleep d], Inr ())"
  shows "step_body d step_kg rs =
    ([Print (step_header (PStr ''KG Integration'')),
      Print (''   '' @ g_clapper @ '' Action: Store extracted information in knowledge graph''),
      Print (''   '' @ g_cycle @ '' INSERT company data triples...''),
      Sleep d,
      Print (''   '' @ g_cycle @ '' INSERT entity relationships...''),
      Sleep d,
      Print (''   '' @ g_cycle @ '' Run inference on new data...''),
      Sleep d,
      Print (''   '' @ g_cycle @ '' Update entity embeddings...''),
      Sleep d,
      Print (''   '' @ g_check @ '' KG integration completed'')],
     Inr rs)"
  using assms
  by (subst step_body_kg [where a = "PStr ''Store extracted information in knowledge graph''"])
     (simp_all add: step_kg_def kg_operations_def)

lemma run_steps_workflow:
  assumes "time_sleep d = ([Sleep d], Inr ())"
  shows "run_steps d workflow_steps [] =
    (fst (step_body d step_company [])
       @ fst (step_body d step_news [mock_result (PStr ''https://example.com'')])
       @ fst (step_body d step_kg
           [mock_result (PStr ''https://example.com''),
            mock_result (PStr ''https://httpbin.org/html'')]),
     Inr [mock_result (PStr ''https://example.com''),
          mock_result (PStr ''https://httpbin.org/html'')])"
  by (simp add: workflow_steps_def step_body_company step_body_news step_body_kg_step [OF assms]
        then_do_Inr ret_def)

lemma py_sum_entities:
  "py_sum [get_default (mock_result u) ''entities_found'' (PInt 0),
     get_default (mock_result v) ''entities_found'' (PInt 0)] = Inr (PInt 16)"
  by (simp add: py_sum_def get_default_def mock_result_def py_add_def)

lemma py_sum_triples:
  "py_sum [get_default (mock_result u) ''kg_triples_added'' (PInt 0),
     get_default (mock_result v) ''kg_triples_added'' (PInt 0)] = Inr (PInt 24)"
  by (simp add: py_sum_def get_default_def mock_result_def py_add_def)

lemma contains_url_mock: "contains ''url'' (mock_result w)"
  by (simp add: contains_def mock_result_def)

lemma summary_workflow:
  "summary workflow_steps [mock_result u, mock_result v] =
     ([Print (nl @ g_chart @ '' Workflow Summary:''),
       Print ''   Total steps: 3'',
       Print ''   URLs processed: 2'',
       Print ''   Total entities extracted: 16'',
       Print ''   Total KG triples added: 24''], Inr ())"
proof -
  have l: "length workflow_steps = 3" by (simp add: workflow_steps_def)
  show ?thesis
    by (simp add: summary_def l contains_url_mock py_sum_entities py_sum_triples prog_simps
          str_int_2 str_int_3 str_int_16 str_int_24)
qed

lemma benefits_ok:
  "benefits =
     ([Print (nl @ g_target @ '' Workflow Benefits:''),
       Print (''   '' @ g_bullet @ '' Automated end-to-end processing''),
       Print (''   '' @ g_bullet @ '' Consistent data extraction''),
       Print (''   '' @ g_bullet @ '' Integrated KG updates''),
       Print (''   '' @ g_bullet @ '' Error handling and retries''),
       Print (''   '' @ g_bullet @ '' Performance monitoring'')], Inr ())"
  by (simp add: benefits_def prog_simps)

subsection \<open>What the loop does to the result list, for any list of steps\<close>

lemma then_do_InrD:
  assumes "snd (then_do m f) = Inr y"
  shows "\<exists>t x. m = (t, Inr x) \<and> snd (f x) = Inr y"
proof (cases m)
  case (Pair t r)
  show ?thesis
  proof (cases r)
    case (Inl e)
    with Pair assms show ?thesis by (simp add: then_do_Inl)
  next
    case (Inr x)
    with Pair assms show ?thesis by (simp add: then_do_Inr split: prod.splits)
  qed
qed

lemma browse_branch_result:
  assumes "map_of step ''url'' = Some u" and "snd (browse_branch step rs) = Inr rs'"
  shows "rs' = rs @ [mock_result u]"
proof (cases "map_of step ''action''")
  case None
  with assms show ?thesis
    by (simp add: browse_branch_def getitem_def prog_simps)
next
  case (Some a)
  with assms show ?thesis by (simp add: browse_branch_ok)
qed

lemma step_body_result:
  assumes "snd (step_body d step rs) = Inr rs'"
  shows "rs' = (if contains ''url'' step
                then rs @ [mock_result (the (map_of step ''url''))] else rs)"
proof (cases "map_of step ''name''")
  case None
  with assms show ?thesis by (simp add: step_body_def getitem_def prog_simps)
next
  case (Some n)
  show ?thesis
  proof (cases "contains ''url'' step")
    case True
    then obtain u where u: "map_of step ''url'' = Some u" by (auto simp: contains_def)
    from assms Some True have "snd (browse_branch step rs) = Inr rs'"
      by (simp add: step_body_def getitem_def prog_simps split: prod.splits)
    with u True show ?thesis by (simp add: browse_branch_result)
  next
    case False
    show ?thesis
    proof (cases "n = PStr ''KG Integration''")
      case True
      with assms Some False have "snd (then_do (kg_branch d step) (\<lambda>_. ret rs)) = Inr rs'"
        by (simp add: step_body_def getitem_def prog_simps split: prod.splits)
      from then_do_InrD [OF this] False show ?thesis by (auto simp: ret_def)
    next
      case n: False
      with assms Some False show ?thesis
        by (simp add: step_body_def getitem_def prog_simps)
    qed
  qed
qed

lemma run_steps_result:
  assumes "snd (run_steps d steps rs) = Inr rs'"
  shows "rs' = rs @ map (\<lambda>s. mock_result (the (map_of s ''url''))) (filter (contains ''url'') steps)"
  using assms
proof (induction steps arbitrary: rs)
  case Nil
  then show ?case by (simp add: ret_def)
next
  case (Cons s steps)
  from Cons.prems obtain t x where
    b: "step_body d s rs = (t, Inr x)" and r: "snd (run_steps d steps x) = Inr rs'"
    using then_do_InrD [of "step_body d s rs" "run_steps d steps" rs'] by auto
  from b have "snd (step_body d s rs) = Inr x" by simp
  from step_body_result [OF this] Cons.IH [OF r] show ?case by simp
qed

section \<open>The properties of the result list\<close>

lemma final_results:
  "snd (run_steps (1 / 2) workflow_steps []) =
     Inr [mock_result (PStr ''https://example.com''), mock_result (PStr ''https://httpbin.org/html'')]"
  by (simp add: run_steps_workflow [OF time_sleep_half])

lemma mock_result_fields:
  "keys (mock_result u) =
     [''url'', ''success'', ''extraction_time'', ''content_length'', ''entities_found'',
      ''kg_triples_added'']"
  "getitem (mock_result u) ''url'' = Inr u"
  "getitem (mock_result u) ''success'' = Inr (PBool True)"
  "getitem (mock_result u) ''extraction_time'' = Inr (PFloat (5 / 2))"
  "getitem (mock_result u) ''content_length'' = Inr (PInt 15432)"
  "getitem (mock_result u) ''entities_found'' = Inr (PInt 8)"
  "getitem (mock_result u) ''kg_triples_added'' = Inr (PInt 12)"
  by (simp_all add: keys_def getitem_def mock_result_def)

text \<open>
  Claim C6. Every record that the loop appends to \<open>results\<close>, for any list of steps and
  any results so far, has exactly the six keys url, success, extraction_time,
  content_length, entities_found and kg_triples_added, and holds True, 2.5, 15432, 8 and
  12 under the last five: constants of the source, whatever the step is.
\<close>

theorem appended_records_are_constant:
  assumes "snd (run_steps d steps rs) = Inr rs'" and "r \<in> set (drop (length rs) rs')"
  shows "keys r =
           [''url'', ''success'', ''extraction_time'', ''content_length'', ''entities_found'',
            ''kg_triples_added'']
       \<and> getitem r ''success'' = Inr (PBool True)
       \<and> getitem r ''extraction_time'' = Inr (PFloat (5 / 2))
       \<and> getitem r ''content_length'' = Inr (PInt 15432)
       \<and> getitem r ''entities_found'' = Inr (PInt 8)
       \<and> getitem r ''kg_triples_added'' = Inr (PInt 12)"
proof -
  from run_steps_result [OF assms(1)] assms(2)
  obtain u where "r = mock_result u" by auto
  then show ?thesis by (simp add: mock_result_fields)
qed

theorem appended_records_are_constant_witness:
  "snd (run_steps (1 / 2) workflow_steps []) =
     Inr [mock_result (PStr ''https://example.com''), mock_result (PStr ''https://httpbin.org/html'')]
   \<and> mock_result (PStr ''https://httpbin.org/html'')
       \<in> set (drop (length ([] :: pydict list))
             [mock_result (PStr ''https://example.com''), mock_result (PStr ''https://httpbin.org/html'')])
   \<and> keys (mock_result (PStr ''https://httpbin.org/html'')) =
           [''url'', ''success'', ''extraction_time'', ''content_length'', ''entities_found'',
            ''kg_triples_added'']
   \<and> getitem (mock_result (PStr ''https://httpbin.org/html'')) ''success'' = Inr (PBool True)
   \<and> getitem (mock_result (PStr ''https://httpbin.org/html'')) ''extraction_time'' = Inr (PFloat (5 / 2))
   \<and> getitem (mock_result (PStr ''https://httpbin.org/html'')) ''content_length'' = Inr (PInt 15432)
   \<and> getitem (mock_result (PStr ''https://httpbin.org/html'')) ''entities_found'' = Inr (PInt 8)
   \<and> getitem (mock_result (PStr ''https://httpbin.org/html'')) ''kg_triples_added'' = Inr (PInt 12)"
proof -
  let ?m1 = "mock_result (PStr ''https://example.com'')"
  let ?m2 = "mock_result (PStr ''https://httpbin.org/html'')"
  have b: "?m2 \<in> set (drop (length ([] :: pydict list)) [?m1, ?m2])" by simp
  from appended_records_are_constant [OF final_results b] final_results b
  show ?thesis by blast
qed

text \<open>
  Claim C9. The loop leaves the records it found in place and appends one record for
  each step that has a url key, in the order of the steps; a step without a url key,
  as the KG Integration step, appends nothing. For the fixed steps that is two records.
\<close>

theorem results_one_record_per_url_step:
  assumes "snd (run_steps d steps rs) = Inr rs'"
  shows "take (length rs) rs' = rs
       \<and> drop (length rs) rs' =
           map (\<lambda>s. mock_result (the (map_of s ''url''))) (filter (contains ''url'') steps)
       \<and> length rs' = length rs + length (filter (contains ''url'') steps)"
  using run_steps_result [OF assms] by simp

theorem results_one_record_per_url_step_witness:
  "snd (run_steps (1 / 2) workflow_steps []) =
     Inr [mock_result (PStr ''https://example.com''), mock_result (PStr ''https://httpbin.org/html'')]
   \<and> filter (contains ''url'') workflow_steps = [step_company, step_news]
   \<and> drop (length ([] :: pydict list))
        [mock_result (PStr ''https://example.com''), mock_result (PStr ''https://httpbin.org/html'')] =
       map (\<lambda>s. mock_result (the (map_of s ''url''))) (filter (contains ''url'') workflow_steps)
   \<and> length [mock_result (PStr ''https://example.com''), mock_result (PStr ''https://httpbin.org/html'')] =
       length ([] :: pydict list) + length (filter (contains ''url'') workflow_steps)
   \<and> length (filter (contains ''url'') workflow_steps) = 2"
proof -
  have f: "filter (contains ''url'') workflow_steps = [step_company, step_news]"
    by (simp add: workflow_steps_def contains_def step_company_def step_news_def step_kg_def)
  have l: "length (filter (contains ''url'') workflow_steps) = 2"
    by (simp add: f)
  from results_one_record_per_url_step [OF final_results] final_results f l
  show ?thesis by blast
qed

text \<open>
  Claim C10. Every record that the loop appends has a url key: when the records so far
  have one, the filter of the summary line \<^verbatim>\<open>URLs processed\<close> keeps every record of the
  final list, and the count it prints is the length of the list.
\<close>

theorem url_filter_keeps_every_record:
  assumes "snd (run_steps d steps rs) = Inr rs'" and "list_all (contains ''url'') rs"
  shows "list_all (contains ''url'') rs'
       \<and> filter (contains ''url'') rs' = rs'
       \<and> length (filter (contains ''url'') rs') = length rs'"
proof -
  from run_steps_result [OF assms(1)] assms(2)
  have "list_all (contains ''url'') rs'"
    by (simp add: list_all_iff contains_url_mock image_iff) (auto simp: contains_url_mock)
  then show ?thesis by (simp add: list_all_iff)
qed

theorem url_filter_keeps_every_record_witness:
  "snd (run_steps (1 / 2) workflow_steps []) =
     Inr [mock_result (PStr ''https://example.com''), mock_result (PStr ''https://httpbin.org/html'')]
   \<and> list_all (contains ''url'') ([] :: pydict list)
   \<and> filter (contains ''url'')
        [mock_result (PStr ''https://example.com''), mock_result (PStr ''https://httpbin.org/html'')] =
       [mock_result (PStr ''https://example.com''), mock_result (PStr ''https://httpbin.org/html'')]
   \<and> length (filter (contains ''url'')
        [mock_result (PStr ''https://example.com''), mock_result (PStr ''https://httpbin.org/html'')]) =
       length [mock_result (PStr ''https://example.com''), mock_result (PStr ''https://httpbin.org/html'')]"
proof -
  have e: "list_all (contains ''url'') ([] :: pydict list)" by simp
  from url_filter_keeps_every_record [OF final_results e] final_results e
  show ?thesis by blast
qed

section \<open>The output of the run\<close>

lemmas glyph_defs = g_cycle_def g_target_def g_globe_def g_clapper_def g_check_def
  g_stopwatch_def g_page_def g_label_def g_brain_def g_chart_def g_bullet_def g_clipboard_def

lemma demo_with_sleep_ok:
  assumes "time_sleep d = ([Sleep d], Inr ())"
  shows "demo_with_sleep d =
    (Print (g_cycle @ '' Browser Automation Workflow Demo'')
       # Print (replicate 40 CHR ''='')
       # fst (run_steps d workflow_steps [])
       @ fst (summary workflow_steps
           [mock_result (PStr ''https://example.com''),
            mock_result (PStr ''https://httpbin.org/html'')])
       @ fst benefits
       @ [Print (nl @ g_clipboard @ '' Workflow Definition (JSON):''),
          Print (json_dumps workflow_def)],
     Inr [mock_result (PStr ''https://example.com''),
          mock_result (PStr ''https://httpbin.org/html'')])"
  by (simp add: demo_with_sleep_def run_steps_workflow [OF assms] summary_workflow benefits_ok
        prog_simps)

lemma demo_ok:
  "demo_browser_workflow =
    (Print (g_cycle @ '' Browser Automation Workflow Demo'')
       # Print (replicate 40 CHR ''='')
       # fst (run_steps (1 / 2) workflow_steps [])
       @ fst (summary workflow_steps
           [mock_result (PStr ''https://example.com''),
            mock_result (PStr ''https://httpbin.org/html'')])
       @ fst benefits
       @ [Print (nl @ g_clipboard @ '' Workflow Definition (JSON):''),
          Print (json_dumps workflow_def)],
     Inr [mock_result (PStr ''https://example.com''),
          mock_result (PStr ''https://httpbin.org/html'')])"
  unfolding demo_browser_workflow_def by (rule demo_with_sleep_ok) (rule time_sleep_half)

text \<open>
  Claim C1. The run prints, one after the other, the summary heading and the four lines
  \<^verbatim>\<open>Total steps: 3\<close>, \<^verbatim>\<open>URLs processed: 2\<close>, \<^verbatim>\<open>Total entities extracted: 16\<close> and
  \<^verbatim>\<open>Total KG triples added: 24\<close>, each indented by three spaces. They are what the summary
  computes from the final result list, whose two records contribute 8 entities and 12
  triples each.
\<close>

theorem summary_totals:
  "\<exists>pre post rs.
      fst demo_browser_workflow = pre @ fst (summary workflow_steps rs) @ post
    \<and> snd demo_browser_workflow = Inr rs
    \<and> printed (fst (summary workflow_steps rs)) =
        [nl @ g_chart @ '' Workflow Summary:'',
         ''   Total steps: 3'',
         ''   URLs processed: 2'',
         ''   Total entities extracted: 16'',
         ''   Total KG triples added: 24'']
    \<and> map (\<lambda>r. get_default r ''entities_found'' (PInt 0)) rs = [PInt 8, PInt 8]
    \<and> map (\<lambda>r. get_default r ''kg_triples_added'' (PInt 0)) rs = [PInt 12, PInt 12]
    \<and> py_sum [PInt 8, PInt 8] = Inr (PInt 16)
    \<and> py_sum [PInt 12, PInt 12] = Inr (PInt 24)"
proof -
  let ?rs = "[mock_result (PStr ''https://example.com''),
              mock_result (PStr ''https://httpbin.org/html'')]"
  let ?pre = "Print (g_cycle @ '' Browser Automation Workflow Demo'')
       # Print (replicate 40 CHR ''='') # fst (run_steps (1 / 2) workflow_steps [])"
  let ?post = "fst benefits
       @ [Print (nl @ g_clipboard @ '' Workflow Definition (JSON):''),
          Print (json_dumps workflow_def)]"
  have 1: "fst demo_browser_workflow = ?pre @ fst (summary workflow_steps ?rs) @ ?post"
    by (simp add: demo_ok)
  have 2: "snd demo_browser_workflow = Inr ?rs" by (simp add: demo_ok)
  have 3: "printed (fst (summary workflow_steps ?rs)) =
        [nl @ g_chart @ '' Workflow Summary:'',
         ''   Total steps: 3'',
         ''   URLs processed: 2'',
         ''   Total entities extracted: 16'',
         ''   Total KG triples added: 24'']"
    by (simp add: summary_workflow)
  have 4: "map (\<lambda>r. get_default r ''entities_found'' (PInt 0)) ?rs = [PInt 8, PInt 8]"
    by (simp add: get_default_def mock_result_def)
  have 5: "map (\<lambda>r. get_default r ''kg_triples_added'' (PInt 0)) ?rs = [PInt 12, PInt 12]"
    by (simp add: get_default_def mock_result_def)
  have 6: "py_sum [PInt 8, PInt 8] = Inr (PInt 16)" by (simp add: py_sum_def py_add_def)
  have 7: "py_sum [PInt 12, PInt 12] = Inr (PInt 24)" by (simp add: py_sum_def py_add_def)
  show ?thesis
    by (rule exI [of _ ?pre], rule exI [of _ ?post], rule exI [of _ ?rs])
       (intro conjI 1 2 3 4 5 6 7)
qed

lemma step_names:
  "map (\<lambda>s. getitem s ''name'') workflow_steps =
     [Inr (PStr ''Browse Company Website''), Inr (PStr ''Browse News Article''),
      Inr (PStr ''KG Integration'')]"
  by (simp add: workflow_steps_def step_company_def step_news_def step_kg_def getitem_def)

lemma headers_company:
  "filter is_step_header (printed (fst (step_body d step_company rs))) =
     [step_header (PStr ''Browse Company Website'')]"
  by (simp add: step_body_company is_step_header_def step_header_def nl_def glyph_defs)

lemma headers_news:
  "filter is_step_header (printed (fst (step_body d step_news rs))) =
     [step_header (PStr ''Browse News Article'')]"
  by (simp add: step_body_news is_step_header_def step_header_def nl_def glyph_defs)

lemma headers_kg:
  "time_sleep d = ([Sleep d], Inr ()) \<Longrightarrow>
   filter is_step_header (printed (fst (step_body d step_kg rs))) =
     [step_header (PStr ''KG Integration'')]"
  by (simp add: step_body_kg_step is_step_header_def step_header_def nl_def glyph_defs)

lemma printed_append: "printed (xs @ ys) = printed xs @ printed ys"
  by (induction xs rule: printed.induct) simp_all

lemma headers_outside_loop:
  "filter is_step_header
     (printed (fst (summary workflow_steps [mock_result u, mock_result v]))) = []"
  "filter is_step_header (printed (fst benefits)) = []"
  "\<not> is_step_header (g_cycle @ '' Browser Automation Workflow Demo'')"
  "\<not> is_step_header (replicate 40 CHR ''='')"
  "\<not> is_step_header (nl @ g_clipboard @ '' Workflow Definition (JSON):'')"
  by (simp_all add: summary_workflow benefits_ok is_step_header_def nl_def glyph_defs
        numeral_eq_Suc)


lemma json_not_header: "\<not> is_step_header (json_dumps workflow_def)"
  by (simp add: json_dumps_def workflow_def_def is_step_header_def nl_def)

lemma printed_demo:
  "printed (fst demo_browser_workflow) =
     (g_cycle @ '' Browser Automation Workflow Demo'')
       # replicate 40 CHR ''=''
       # printed (fst (step_body (1 / 2) step_company []))
       @ printed (fst (step_body (1 / 2) step_news [mock_result (PStr ''https://example.com'')]))
       @ printed (fst (step_body (1 / 2) step_kg
           [mock_result (PStr ''https://example.com''),
            mock_result (PStr ''https://httpbin.org/html'')]))
       @ printed (fst (summary workflow_steps
           [mock_result (PStr ''https://example.com''),
            mock_result (PStr ''https://httpbin.org/html'')]))
       @ printed (fst benefits)
       @ [nl @ g_clipboard @ '' Workflow Definition (JSON):'', json_dumps workflow_def]"
  by (simp only: demo_ok run_steps_workflow [OF time_sleep_half] fst_conv printed_append
        printed.simps append_Cons append_Nil append_assoc)

text \<open>
  Claim C2. The step list has three entries, named Browse Company Website, Browse News
  Article and KG Integration in this order. The effects of the loop are those of three
  runs of its body, one for each entry in list order, each of which prints one step
  header, and the run as a whole prints these three headers and no other.
\<close>

theorem three_iterations_in_order:
  "length workflow_steps = 3
   \<and> map (\<lambda>s. getitem s ''name'') workflow_steps =
        [Inr (PStr ''Browse Company Website''), Inr (PStr ''Browse News Article''),
         Inr (PStr ''KG Integration'')]
   \<and> filter is_step_header (printed (fst demo_browser_workflow)) =
        [step_header (PStr ''Browse Company Website''),
         step_header (PStr ''Browse News Article''),
         step_header (PStr ''KG Integration'')]
   \<and> (\<exists>r1 r2.
         fst (run_steps (1 / 2) workflow_steps []) =
           fst (step_body (1 / 2) (workflow_steps ! 0) [])
           @ fst (step_body (1 / 2) (workflow_steps ! 1) [r1])
           @ fst (step_body (1 / 2) (workflow_steps ! 2) [r1, r2])
       \<and> map (\<lambda>t. filter is_step_header (printed t))
            [fst (step_body (1 / 2) (workflow_steps ! 0) []),
             fst (step_body (1 / 2) (workflow_steps ! 1) [r1]),
             fst (step_body (1 / 2) (workflow_steps ! 2) [r1, r2])] =
           [[step_header (PStr ''Browse Company Website'')],
            [step_header (PStr ''Browse News Article'')],
            [step_header (PStr ''KG Integration'')]])"
proof -
  let ?r1 = "mock_result (PStr ''https://example.com'')"
  let ?r2 = "mock_result (PStr ''https://httpbin.org/html'')"
  have n: "workflow_steps ! 0 = step_company" "workflow_steps ! 1 = step_news"
    "workflow_steps ! 2 = step_kg"
    by (simp_all add: workflow_steps_def)
  have 1: "length workflow_steps = 3" by (simp add: workflow_steps_def)
  have 3: "filter is_step_header (printed (fst demo_browser_workflow)) =
        [step_header (PStr ''Browse Company Website''),
         step_header (PStr ''Browse News Article''),
         step_header (PStr ''KG Integration'')]"
    by (simp add: printed_demo headers_company headers_news headers_kg [OF time_sleep_half]
          headers_outside_loop json_not_header)
  have 4: "fst (run_steps (1 / 2) workflow_steps []) =
           fst (step_body (1 / 2) (workflow_steps ! 0) [])
           @ fst (step_body (1 / 2) (workflow_steps ! 1) [?r1])
           @ fst (step_body (1 / 2) (workflow_steps ! 2) [?r1, ?r2])"
    by (simp only: n run_steps_workflow [OF time_sleep_half] fst_conv)
  have 5: "map (\<lambda>t. filter is_step_header (printed t))
            [fst (step_body (1 / 2) (workflow_steps ! 0) []),
             fst (step_body (1 / 2) (workflow_steps ! 1) [?r1]),
             fst (step_body (1 / 2) (workflow_steps ! 2) [?r1, ?r2])] =
           [[step_header (PStr ''Browse Company Website'')],
            [step_header (PStr ''Browse News Article'')],
            [step_header (PStr ''KG Integration'')]]"
    by (simp only: n list.map headers_company headers_news headers_kg [OF time_sleep_half])
  have "\<exists>r1 r2.
         fst (run_steps (1 / 2) workflow_steps []) =
           fst (step_body (1 / 2) (workflow_steps ! 0) [])
           @ fst (step_body (1 / 2) (workflow_steps ! 1) [r1])
           @ fst (step_body (1 / 2) (workflow_steps ! 2) [r1, r2])
       \<and> map (\<lambda>t. filter is_step_header (printed t))
            [fst (step_body (1 / 2) (workflow_steps ! 0) []),
             fst (step_body (1 / 2) (workflow_steps ! 1) [r1]),
             fst (step_body (1 / 2) (workflow_steps ! 2) [r1, r2])] =
           [[step_header (PStr ''Browse Company Website'')],
            [step_header (PStr ''Browse News Article'')],
            [step_header (PStr ''KG Integration'')]]"
    by (rule exI [of _ ?r1], rule exI [of _ ?r2]) (intro conjI 4 5)
  with 1 step_names 3 show ?thesis by (intro conjI)
qed

subsection \<open>The JSON document read back\<close>

lemma code_quote: "code quote = 0x22" by (simp add: code_def quote_def)
lemma code_backslash: "code backslash = 0x5C" by (simp add: code_def backslash_def)

lemma plain_not_special: "plain_char c \<Longrightarrow> c \<noteq> quote \<and> c \<noteq> backslash"
  using code_quote code_backslash by (auto simp: plain_char_def)

lemma utf8_decode_plain: "list_all plain_char s \<Longrightarrow> utf8_decode s = map code s"
  by (induction s) (simp_all add: plain_char_def)

lemma esc_point_plain: "plain_char c \<Longrightarrow> esc_point (code c) = [c]"
  by (simp add: esc_point_def plain_char_def byte_def) (simp add: code_def)

lemma encode_str_plain: "list_all plain_char s \<Longrightarrow> encode_str s = quote # s @ [quote]"
proof -
  assume p: "list_all plain_char s"
  then have "concat (map esc_point (map code s)) = s"
    by (induction s) (simp_all add: esc_point_plain)
  with p show ?thesis by (simp add: encode_str_def utf8_decode_plain)
qed

lemma parse_chars_plain: "plain_char c \<Longrightarrow> parse_chars (c # cs) = prepend [c] (parse_chars cs)"
  using plain_not_special [of c] by (simp add: plain_char_def)

lemma parse_chars_quote: "parse_chars (CHR 0x22 # cs) = Some ([], cs)"
  by (simp add: quote_def)

lemma prepend_Some: "prepend p (Some (t, r)) = Some (p @ t, r)"
  by (simp add: prepend_def)

lemma fuel_numeral: "numeral k = Suc (pred_numeral k)"
  by (simp add: numeral_eq_Suc)

lemmas parse_value_numeral =
  trans [OF arg_cong [where f = "\<lambda>n. parse_value n s", OF fuel_numeral] parse_value.simps(2)] for s
lemmas parse_items_numeral =
  trans [OF arg_cong [where f = "\<lambda>n. parse_items n s", OF fuel_numeral] parse_items.simps(2)] for s
lemmas parse_members_numeral =
  trans [OF arg_cong [where f = "\<lambda>n. parse_members n s", OF fuel_numeral] parse_members.simps(2)] for s

lemma indents:
  "newline_indent 0 = nl"
  "newline_indent (Suc 0) = nl @ ''  ''"
  "newline_indent (Suc (Suc 0)) = nl @ ''    ''"
  "newline_indent (Suc (Suc (Suc 0))) = nl @ ''      ''"
  by (simp_all add: newline_indent_def numeral_eq_Suc)

lemma loads_dumps_workflow_def: "json_loads (json_dumps workflow_def) = Some workflow_def"
  by (simp add: json_loads_def json_dumps_def workflow_def_def encode_str_plain plain_char_def
        code_def indents nl_def quote_def skip_ws_def is_ws_def
        parse_chars_plain parse_chars_quote prepend_Some make_dict_def
        parse_value_numeral parse_items_numeral parse_members_numeral
        del: parse_chars.simps)

text \<open>
  Claim C3. The last text that the run prints is \<^verbatim>\<open>json.dumps(workflow_def, indent=2)\<close>,
  and reading that text back with \<^verbatim>\<open>json.loads\<close> gives \<^verbatim>\<open>workflow_def\<close> again: a dictionary
  with exactly the keys name, steps and output, in which steps is a list of four entries
  and output a dictionary of three keys.
\<close>

theorem json_document_round_trip:
  "last (printed (fst demo_browser_workflow)) = json_dumps workflow_def
   \<and> json_loads (json_dumps workflow_def) = Some workflow_def
   \<and> (\<exists>name steps output.
         workflow_def = JDict [(''name'', name), (''steps'', JList steps), (''output'', JDict output)]
       \<and> length steps = 4 \<and> length output = 3 \<and> distinct (map fst output))"
proof -
  have 1: "last (printed (fst demo_browser_workflow)) = json_dumps workflow_def"
    by (simp add: printed_demo)
  have 3: "\<exists>name steps output.
         workflow_def = JDict [(''name'', name), (''steps'', JList steps), (''output'', JDict output)]
       \<and> length steps = 4 \<and> length output = 3 \<and> distinct (map fst output)"
    by (simp add: workflow_def_def)
  from 1 loads_dumps_workflow_def 3 show ?thesis by (intro conjI)
qed

subsection \<open>The run ends without an exception\<close>

lemma step_actions:
  "map (\<lambda>s. getitem s ''action'') workflow_steps =
     [Inr (PStr ''Extract company information and metadata''),
      Inr (PStr ''Extract article content and entities''),
      Inr (PStr ''Store extracted information in knowledge graph'')]"
  by (simp add: workflow_steps_def step_company_def step_news_def step_kg_def getitem_def)

lemma step_urls:
  "map (\<lambda>s. getitem s ''url'') (filter (contains ''url'') workflow_steps) =
     [Inr (PStr ''https://example.com''), Inr (PStr ''https://httpbin.org/html'')]"
  by (simp add: workflow_steps_def step_company_def step_news_def step_kg_def getitem_def
        contains_def)

lemma header_counts:
  "map (\<lambda>n. count_list (printed (fst demo_browser_workflow)) (step_header n))
     [PStr ''Browse Company Website'', PStr ''Browse News Article'', PStr ''KG Integration''] =
     [1, 1, 1]"
  by (simp add: printed_demo step_body_company step_body_news step_body_kg_step
        time_sleep_half summary_workflow benefits_ok step_header_def nl_def glyph_defs
        json_dumps_def workflow_def_def numeral_eq_Suc)

text \<open>
  Claim C4. The run with no external input ends with a value and not with an exception.
  Every dictionary access of the procedure finds its key: name and action in every
  step, url in the steps that have one, and the five keys read from a mock result.
  No step is retried: each step header is printed once, and there are as many headers
  as steps.
\<close>

theorem runs_to_completion:
  "(\<exists>t rs. demo_browser_workflow = (t, Inr rs))
   \<and> map (\<lambda>s. getitem s ''name'') workflow_steps =
        [Inr (PStr ''Browse Company Website''), Inr (PStr ''Browse News Article''),
         Inr (PStr ''KG Integration'')]
   \<and> map (\<lambda>s. getitem s ''action'') workflow_steps =
        [Inr (PStr ''Extract company information and metadata''),
         Inr (PStr ''Extract article content and entities''),
         Inr (PStr ''Store extracted information in knowledge graph'')]
   \<and> map (\<lambda>s. getitem s ''url'') (filter (contains ''url'') workflow_steps) =
        [Inr (PStr ''https://example.com''), Inr (PStr ''https://httpbin.org/html'')]
   \<and> map (getitem (mock_result u))
        [''success'', ''extraction_time'', ''content_length'', ''entities_found'',
         ''kg_triples_added''] =
        [Inr (PBool True), Inr (PFloat (5 / 2)), Inr (PInt 15432), Inr (PInt 8), Inr (PInt 12)]
   \<and> map (\<lambda>n. count_list (printed (fst demo_browser_workflow)) (step_header n))
        [PStr ''Browse Company Website'', PStr ''Browse News Article'', PStr ''KG Integration''] =
        [1, 1, 1]
   \<and> length (filter is_step_header (printed (fst demo_browser_workflow))) = length workflow_steps"
proof -
  have 1: "\<exists>t rs. demo_browser_workflow = (t, Inr rs)"
    by (subst demo_ok) blast
  have 5: "map (getitem (mock_result u))
        [''success'', ''extraction_time'', ''content_length'', ''entities_found'',
         ''kg_triples_added''] =
        [Inr (PBool True), Inr (PFloat (5 / 2)), Inr (PInt 15432), Inr (PInt 8), Inr (PInt 12)]"
    by (simp add: mock_result_fields)
  have "filter is_step_header (printed (fst demo_browser_workflow)) =
        [step_header (PStr ''Browse Company Website''),
         step_header (PStr ''Browse News Article''),
         step_header (PStr ''KG Integration'')]"
    by (simp add: printed_demo headers_company headers_news headers_kg [OF time_sleep_half]
          headers_outside_loop json_not_header)
  moreover have "length workflow_steps = 3" by (simp add: workflow_steps_def)
  ultimately have 7: "length (filter is_step_header (printed (fst demo_browser_workflow))) =
      length workflow_steps"
    by simp
  from 1 step_names step_actions step_urls 5 header_counts 7 show ?thesis by (intro conjI)
qed

section \<open>The run and the world around it\<close>

lemma stdout_text_Cons:
  "stdout_text (Print s # es) = s @ nl @ stdout_text es"
  "stdout_text (Sleep d # es) = stdout_text es"
  "stdout_text [] = []"
  by (simp_all add: stdout_text_def)

lemma performs_frame:
  assumes "performs es w w'" and "list_all print_or_sleep es"
  shows "files w' = files w \<and> requests w' = requests w \<and> env_reads w' = env_reads w
       \<and> out w' = out w @ stdout_text es \<and> clock w + slept es \<le> clock w'"
  using assms
proof (induction rule: performs.induct)
  case (performs_nil w)
  show ?case by (simp add: stdout_text_Cons)
next
  case (performs_cons e w w' es w'')
  from performs_cons.prems have q: "print_or_sleep e" and qs: "list_all print_or_sleep es"
    by simp_all
  note ih = performs_cons.IH [OF qs]
  from performs_cons.hyps(1) q ih show ?case
    by (cases rule: perform.cases) (auto simp: stdout_text_Cons)
qed

lemma perform_late: "0 \<le> x \<Longrightarrow> perform e w (perform_late x e w)"
  by (cases e) (auto intro: perform.intros)

lemma performs_run_late: "0 \<le> x \<Longrightarrow> performs es w (run_late x es w)"
  by (induction es arbitrary: w) (auto intro: performs.intros perform_late)

lemma slept_append: "slept (xs @ ys) = slept xs + slept ys"
  by (induction xs rule: slept.induct) simp_all

lemma demo_effects:
  "list_all print_or_sleep (fst demo_browser_workflow)"
  "slept (fst demo_browser_workflow) = 2"
  by (simp_all add: demo_ok run_steps_workflow step_body_company step_body_news
        step_body_kg_step time_sleep_half summary_workflow benefits_ok slept_append)

text \<open>
  Claim C5. The procedure has no parameter, and every effect of its run is a print or a
  sleep. So whatever the world before the run and however long the sleeps take, the run
  leaves the files, the network and the environment as they were: it appends its text to
  standard output and lets at least two seconds pass, and nothing else.
\<close>

theorem only_prints_and_sleeps:
  assumes "performs (fst demo_browser_workflow) w w'"
  shows "list_all print_or_sleep (fst demo_browser_workflow)
       \<and> files w' = files w \<and> requests w' = requests w \<and> env_reads w' = env_reads w
       \<and> out w' = out w @ stdout_text (fst demo_browser_workflow)
       \<and> clock w + 2 \<le> clock w'"
  using performs_frame [OF assms demo_effects(1)] demo_effects by simp

theorem only_prints_and_sleeps_witness:
  "performs (fst demo_browser_workflow) world0 (run_late 0 (fst demo_browser_workflow) world0)
   \<and> list_all print_or_sleep (fst demo_browser_workflow)
   \<and> files (run_late 0 (fst demo_browser_workflow) world0) = files world0
   \<and> requests (run_late 0 (fst demo_browser_workflow) world0) = requests world0
   \<and> env_reads (run_late 0 (fst demo_browser_workflow) world0) = env_reads world0
   \<and> out (run_late 0 (fst demo_browser_workflow) world0) =
       out world0 @ stdout_text (fst demo_browser_workflow)
   \<and> clock world0 + 2 \<le> clock (run_late 0 (fst demo_browser_workflow) world0)"
proof -
  have p: "performs (fst demo_browser_workflow) world0
             (run_late 0 (fst demo_browser_workflow) world0)"
    by (rule performs_run_late) simp
  from only_prints_and_sleeps [OF p] p show ?thesis by (intro conjI) simp_all
qed

text \<open>
  Determinism is not a property of every script: one that prints what it reads from
  standard input adds different texts to standard output in different runs.
\<close>

lemma echo_is_not_deterministic:
  "\<exists>(s :: unit script) i1 i2 w1 w2 r1 r2.
     script_runs s i1 world0 w1 r1 \<and> script_runs s i2 world0 w2 r2
     \<and> emitted world0 w1 \<noteq> emitted world0 w2"
proof -
  let ?s = "\<lambda>inp. py_print (stdin inp)"
  let ?i = "inputs0\<lparr>stdin := ''a''\<rparr>"
  have "performs es world0 (run_late 0 es world0)" for es
    by (rule performs_run_late) simp
  note p = this [of "[Print []]"] this [of "[Print ''a'']"]
  have a: "script_runs ?s inputs0 world0 (run_late 0 [Print []] world0) (Inr ())"
    using p(1) by (simp add: script_runs_def py_print_def inputs0_def)
  have b: "script_runs ?s ?i world0 (run_late 0 [Print ''a''] world0) (Inr ())"
    using p(2) by (simp add: script_runs_def py_print_def inputs0_def)
  have c: "emitted world0 (run_late 0 [Print []] world0)
      \<noteq> emitted world0 (run_late 0 [Print ''a''] world0)"
    by (simp add: emitted_def world0_def nl_def)
  from a b c show ?thesis by blast
qed



section \<open>The length of the sleep\<close>

lemma step_body_kg_raises:
  assumes "time_sleep d = ([], Inl e)"
  shows "step_body d step_kg rs =
    ([Print (step_header (PStr ''KG Integration'')),
      Print (''   '' @ g_clapper @ '' Action: Store extracted information in knowledge graph''),
      Print (''   '' @ g_cycle @ '' INSERT company data triples...'')],
     Inl e)"
  using assms
  by (simp add: step_body_def step_kg_def getitem_def contains_def kg_branch_def
        kg_operations_def prog_simps)

lemma demo_with_sleep_raises:
  assumes "time_sleep d = ([], Inl e)"
  shows "demo_with_sleep d =
    (Print (g_cycle @ '' Browser Automation Workflow Demo'')
       # Print (replicate 40 CHR ''='')
       # fst (step_body d step_company [])
       @ fst (step_body d step_news [mock_result (PStr ''https://example.com'')])
       @ [Print (step_header (PStr ''KG Integration'')),
          Print (''   '' @ g_clapper @ '' Action: Store extracted information in knowledge graph''),
          Print (''   '' @ g_cycle @ '' INSERT company data triples...'')],
     Inl e)"
  by (simp add: demo_with_sleep_def workflow_steps_def step_body_company step_body_news
        step_body_kg_raises [OF assms] prog_simps)

lemma printed_when_raised:
  assumes "time_sleep d = ([], Inl e)"
  shows "length (printed (fst (demo_with_sleep d))) = 21"
  by (simp add: demo_with_sleep_raises [OF assms] step_body_company step_body_news)

lemma printed_demo_length: "length (printed (fst demo_browser_workflow)) = 38"
  by (simp add: printed_demo step_body_company step_body_news step_body_kg_step
        time_sleep_half summary_workflow benefits_ok)

text \<open>
  The variant of the script that sleeps for minus one second and the variant that sleeps
  for \<open>10\<^sup>1\<^sup>0\<close> seconds print less than the script and end differently: \<^verbatim>\<open>time.sleep\<close> raises
  ValueError in the one and OverflowError in the other at the first KG operation, after
  21 of the 38 texts.
\<close>

theorem refused_sleep_counterexample:
  "printed (fst (demo_with_sleep (- 1))) \<noteq> printed (fst demo_browser_workflow)
   \<and> snd (demo_with_sleep (- 1)) = Inl ValueError
   \<and> snd (demo_with_sleep (- 1)) \<noteq> snd demo_browser_workflow
   \<and> printed (fst (demo_with_sleep (10 ^ 10))) \<noteq> printed (fst demo_browser_workflow)
   \<and> snd (demo_with_sleep (10 ^ 10)) = Inl OverflowError
   \<and> snd (demo_with_sleep (10 ^ 10)) \<noteq> snd demo_browser_workflow"
proof -
  from printed_when_raised [OF time_sleep_negative] printed_demo_length
  have 1: "printed (fst (demo_with_sleep (- 1))) \<noteq> printed (fst demo_browser_workflow)"
    by auto
  have 2: "snd (demo_with_sleep (- 1)) = Inl ValueError"
    using demo_with_sleep_raises [OF time_sleep_negative] by simp
  from 2 have 3: "snd (demo_with_sleep (- 1)) \<noteq> snd demo_browser_workflow"
    by (simp add: demo_ok)
  from printed_when_raised [OF time_sleep_huge] printed_demo_length
  have 4: "printed (fst (demo_with_sleep (10 ^ 10))) \<noteq> printed (fst demo_browser_workflow)"
    by auto
  have 5: "snd (demo_with_sleep (10 ^ 10)) = Inl OverflowError"
    using demo_with_sleep_raises [OF time_sleep_huge] by simp
  from 5 have 6: "snd (demo_with_sleep (10 ^ 10)) \<noteq> snd demo_browser_workflow"
    by (simp add: demo_ok)
  from 1 2 3 4 5 6 show ?thesis by (intro conjI)
qed

lemma printed_loop_any_delay:
  assumes "time_sleep d = ([Sleep d], Inr ())"
  shows "printed (fst (run_steps d workflow_steps [])) =
         printed (fst (run_steps (1 / 2) workflow_steps []))"
  by (simp add: run_steps_workflow [OF assms] run_steps_workflow [OF time_sleep_half]
        step_body_company step_body_news step_body_kg_step [OF assms]
        step_body_kg_step [OF time_sleep_half])

text \<open>
  Claim C7, for the durations that are sure to be slept. The variant of the script that
  sleeps for any duration from zero to \<open>10\<^sup>8\<close> seconds, zero included, prints the same texts
  in the same order as the script and ends with the same result list.
\<close>

theorem sleep_length_does_not_matter:
  assumes "0 \<le> d" and "d \<le> 10 ^ 8"
  shows "printed (fst (demo_with_sleep d)) = printed (fst demo_browser_workflow)
       \<and> snd (demo_with_sleep d) = snd demo_browser_workflow"
proof -
  note t = time_sleep_ok [OF assms]
  show ?thesis
    by (simp add: demo_with_sleep_ok [OF t] demo_ok printed_append printed_loop_any_delay [OF t])
qed

theorem sleep_length_does_not_matter_witness:
  "(0 :: rat) \<le> 0 \<and> (0 :: rat) \<le> 10 ^ 8
   \<and> printed (fst (demo_with_sleep 0)) = printed (fst demo_browser_workflow)
   \<and> snd (demo_with_sleep 0) = snd demo_browser_workflow"
  using sleep_length_does_not_matter [of 0] by simp

end
